theory Spec2Isabelle
  imports Main
begin

section \<open>The Categories component of the inventory management front end\<close>

text \<open>
  The development embeds \<^verbatim>\<open>src/graphql-fe/src/components/Categories.tsx\<close>: the
  \<^verbatim>\<open>Categories\<close> component with its handlers \<^verbatim>\<open>handleSave\<close> and \<^verbatim>\<open>renderData\<close>,
  and the \<^verbatim>\<open>EntityDetails\<close> form. A render is a function from what the hooks
  returned (the query and mutation results, the two pieces of component state) to the
  element tree; an event handler is the sequence of calls it makes, in program order.
\<close>

subsection \<open>Data\<close>

text \<open>
  \<^verbatim>\<open>interface Entity { nodeId?: string; id?: number; description?: string }\<close>.
  An absent field and a field holding \<^verbatim>\<open>undefined\<close> read the same, so each optional
  field is an option. The identifiers handed out by the server are whole numbers.
\<close>

record Entity =
  nodeId :: "string option"
  id' :: "int option"
  description :: "string option"

text \<open>\<^verbatim>\<open>interface AllEntity { allCategories: { nodes: Entity[] } }\<close>\<close>

record Connection =
  nodes :: "Entity list"

record AllEntity =
  allCategories :: Connection

text \<open>Of the error object of a failed operation the component reads only \<^verbatim>\<open>message\<close>.\<close>

record ApolloError =
  message :: string

text \<open>
  What the four hooks hand to one render: \<^verbatim>\<open>{ loading, error, data }\<close> of
  \<^verbatim>\<open>useQuery(GET_ALL)\<close>, and the \<^verbatim>\<open>error\<close> of each \<^verbatim>\<open>useMutation\<close>.
\<close>

record hooks =
  loading :: bool
  error :: "ApolloError option"
  data :: "AllEntity option"
  errorAdding :: "ApolloError option"
  errorDeleting :: "ApolloError option"
  errorUpdating :: "ApolloError option"

text \<open>The component state: the two \<^verbatim>\<open>useState\<close> cells.\<close>

record state =
  displayModal :: bool
  entity :: "Entity option"

definition initial :: state where
  "initial = \<lparr>displayModal = False, entity = None\<rparr>"

subsection \<open>Calls made by a handler\<close>

datatype js_error = TypeError

text \<open>
  A handler sets state and fires mutations. Each constructor is one call of the source:
  the two state setters, the three mutation functions with the \<^verbatim>\<open>variables\<close> they are
  given, and an exception leaving the handler.
\<close>

datatype event =
    setDisplayModal bool
  | setEntity "Entity option"
  | addEntity "string option"
  | deleteEntity "string option"
  | updateEntity "string option" "string option"
  | throw js_error

fun is_mutation :: "event \<Rightarrow> bool" where
  "is_mutation (addEntity d) = True"
| "is_mutation (deleteEntity n) = True"
| "is_mutation (updateEntity n d) = True"
| "is_mutation ev = False"

definition mutations :: "event list \<Rightarrow> event list" where
  "mutations evs = filter is_mutation evs"

fun apply_event :: "event \<Rightarrow> state \<Rightarrow> state" where
  "apply_event (setDisplayModal b) st = st\<lparr>displayModal := b\<rparr>"
| "apply_event (setEntity e) st = st\<lparr>entity := e\<rparr>"
| "apply_event ev st = st"

definition run :: "event list \<Rightarrow> state \<Rightarrow> state" where
  "run evs st = fold apply_event evs st"

subsection \<open>JavaScript operators used by the component\<close>

text \<open>An object is truthy; \<^verbatim>\<open>undefined\<close> is not.\<close>

definition defined :: "'a option \<Rightarrow> bool" where
  "defined x = (case x of None \<Rightarrow> False | Some y \<Rightarrow> True)"

text \<open>A string is truthy unless it is empty; \<^verbatim>\<open>undefined\<close> is not.\<close>

definition truthy :: "string option \<Rightarrow> bool" where
  "truthy v = (case v of None \<Rightarrow> False | Some s \<Rightarrow> s \<noteq> [])"

text \<open>\<^verbatim>\<open>a || b\<close>\<close>

definition js_or :: "string option \<Rightarrow> string option \<Rightarrow> string option" where
  "js_or a b = (if truthy a then a else b)"

text \<open>\<^verbatim>\<open>x?.f\<close>: \<^verbatim>\<open>undefined\<close> when \<^verbatim>\<open>x\<close> is.\<close>

definition opt_chain :: "'a option \<Rightarrow> ('a \<Rightarrow> 'b option) \<Rightarrow> 'b option" where
  "opt_chain x f = (case x of None \<Rightarrow> None | Some y \<Rightarrow> f y)"

text \<open>\<^verbatim>\<open>error?.message\<close>\<close>

definition opt_message :: "ApolloError option \<Rightarrow> string option" where
  "opt_message x = opt_chain x (\<lambda>e. Some (message e))"

text \<open>\<^verbatim>\<open>x.f\<close>: a TypeError when \<^verbatim>\<open>x\<close> is \<^verbatim>\<open>undefined\<close>.\<close>

definition member :: "'a option \<Rightarrow> ('a \<Rightarrow> 'b) \<Rightarrow> js_error + 'b" where
  "member x f = (case x of None \<Rightarrow> Inl TypeError | Some y \<Rightarrow> Inr (f y))"

text \<open>A value interpolated into a template literal.\<close>

definition to_string :: "string option \<Rightarrow> string" where
  "to_string v = (case v of None \<Rightarrow> ''undefined'' | Some s \<Rightarrow> s)"

text \<open>\<^verbatim>\<open>{ ...entity, description: v }\<close>; spreading \<^verbatim>\<open>undefined\<close> adds no field.\<close>

definition spread_description :: "Entity option \<Rightarrow> string \<Rightarrow> Entity" where
  "spread_description ent v =
     (case ent of
        None \<Rightarrow> \<lparr>nodeId = None, id' = None, description = Some v\<rparr>
      | Some x \<Rightarrow> x\<lparr>description := Some v\<rparr>)"

subsection \<open>EntityDetails\<close>

record input =
  val :: string
  onChange :: "string \<Rightarrow> event list"

definition EntityDetails :: "Entity option \<Rightarrow> input" where
  "EntityDetails ent =
     \<lparr>val = to_string (js_or (opt_chain ent description) (Some [])),
      onChange = (\<lambda>v. [setEntity (Some (spread_description ent v))])\<rparr>"

subsection \<open>Categories\<close>

definition entityName :: string where
  "entityName = ''Category''"

record ModalDialog =
  title :: string
  onClose :: "event list"
  onSave :: "event list"
  enableSave :: bool
  content :: input

record row =
  key :: "int option"
  id_cell :: "int option"
  description_cell :: "string option"
  edit_onClick :: "event list"
  delete_onClick :: "event list"

datatype view =
    Span string
  | Page "ModalDialog option" "event list" "row list"

text \<open>The modal, the handler of the New button and the table body of a rendered page.\<close>

fun modal_of :: "view \<Rightarrow> ModalDialog option" where
  "modal_of (Span s) = None"
| "modal_of (Page m new rows) = m"

fun tbody_of :: "view \<Rightarrow> row list option" where
  "tbody_of (Span s) = None"
| "tbody_of (Page m new rows) = Some rows"

definition handleSave :: "Entity option \<Rightarrow> event list" where
  "handleSave ent =
     setDisplayModal False #
     (if truthy (opt_chain ent nodeId) then
        (case member ent nodeId of
           Inl err \<Rightarrow> [throw err]
         | Inr n \<Rightarrow>
             (case member ent description of
                Inl err \<Rightarrow> [throw err]
              | Inr d \<Rightarrow> [updateEntity n d]))
      else [addEntity (opt_chain ent description)])"

definition renderData :: "Entity list \<Rightarrow> row list" where
  "renderData ns =
     map (\<lambda>ent.
       \<lparr>key = id' ent,
        id_cell = id' ent,
        description_cell = description ent,
        edit_onClick = [setEntity (Some ent), setDisplayModal True],
        delete_onClick = [deleteEntity (nodeId ent)]\<rparr>) ns"

definition Categories :: "hooks \<Rightarrow> state \<Rightarrow> view" where
  "Categories h st =
     (if loading h then Span ''Loading...''
      else if defined (error h) \<or> defined (errorAdding h) \<or>
              defined (errorDeleting h) \<or> defined (errorUpdating h) then
        Span (''Error: '' @
          to_string
            (js_or (js_or (js_or (opt_message (error h)) (opt_message (errorAdding h)))
                          (opt_message (errorDeleting h)))
                   (opt_message (errorUpdating h))))
      else
        (case data h of
           None \<Rightarrow> Span ''No records found.''
         | Some d \<Rightarrow>
             Page
               (if displayModal st then
                  Some \<lparr>title = ''New '' @ entityName,
                        onClose = [setDisplayModal False],
                        onSave = handleSave (entity st),
                        enableSave = truthy (opt_chain (entity st) description),
                        content = EntityDetails (entity st)\<rparr>
                else None)
               [setEntity None, setDisplayModal True]
               (renderData (nodes (allCategories d)))))"

subsection \<open>The editor shell\<close>

text \<open>
  Modelled from the spec: the \<^verbatim>\<open>ModalDialog\<close> component (imported from
  \<^verbatim>\<open>./ModalDialog\<close>) is not among the sources. The spec describes it as a modal
  surface with no business logic of its own, taking \<^verbatim>\<open>onSave\<close> and \<^verbatim>\<open>saveEnabled\<close>,
  whose save action is not invocable (or is a no-op) unless it is enabled. Pressing its
  save button therefore runs \<^verbatim>\<open>onSave\<close> when \<^verbatim>\<open>enableSave\<close> holds and does nothing
  otherwise.
\<close>

definition press_save :: "ModalDialog \<Rightarrow> event list" where
  "press_save m = (if enableSave m then onSave m else [])"

subsection \<open>The error priority of the specification\<close>

text \<open>
  The spec's reading of the error view, in its own words: the first error found in the
  fixed priority order Load, Create, Delete, Update. It is compared below with the message
  that \<open>Categories\<close> computes.
\<close>

definition spec_first_error :: "hooks \<Rightarrow> ApolloError option" where
  "spec_first_error h =
     (case error h of Some e \<Rightarrow> Some e | None \<Rightarrow>
      (case errorAdding h of Some e \<Rightarrow> Some e | None \<Rightarrow>
       (case errorDeleting h of Some e \<Rightarrow> Some e | None \<Rightarrow> errorUpdating h)))"

subsection \<open>Sample inputs\<close>

text \<open>The record of the spec's scenario B, and the same record with an empty key.\<close>

definition fruit :: Entity where
  "fruit = \<lparr>nodeId = Some ''k1'', id' = Some 1, description = Some ''Fruit''\<rparr>"

definition keyless_fruit :: Entity where
  "keyless_fruit = \<lparr>nodeId = Some [], id' = Some 1, description = Some ''Fruit''\<rparr>"

definition editing_fruit :: state where
  "editing_fruit = \<lparr>displayModal = True, entity = Some fruit\<rparr>"

text \<open>Results of the hooks: a load of no record, a load of one record.\<close>

definition loaded :: "Entity list \<Rightarrow> hooks" where
  "loaded ns =
     \<lparr>loading = False, error = None, data = Some \<lparr>allCategories = \<lparr>nodes = ns\<rparr>\<rparr>,
      errorAdding = None, errorDeleting = None, errorUpdating = None\<rparr>"

text \<open>All four operations failed; the message of each is a parameter.\<close>

definition all_failed :: "string \<Rightarrow> string \<Rightarrow> string \<Rightarrow> string \<Rightarrow> hooks" where
  "all_failed l c d u =
     \<lparr>loading = False, error = Some \<lparr>message = l\<rparr>, data = None,
      errorAdding = Some \<lparr>message = c\<rparr>,
      errorDeleting = Some \<lparr>message = d\<rparr>,
      errorUpdating = Some \<lparr>message = u\<rparr>\<rparr>"

text \<open>A failed Create reported while the query is loading.\<close>

definition create_failed_while_loading :: hooks where
  "create_failed_while_loading =
     \<lparr>loading = True, error = None, data = None,
      errorAdding = Some \<lparr>message = ''create failed''\<rparr>,
      errorDeleting = None, errorUpdating = None\<rparr>"

section \<open>Properties\<close>

lemmas js_defs =
  defined_def truthy_def js_or_def opt_chain_def opt_message_def member_def to_string_def

lemmas sample_defs =
  fruit_def keyless_fruit_def editing_fruit_def loaded_def all_failed_def
  create_failed_while_loading_def initial_def

subsection \<open>Rendering\<close>

text \<open>While the query is loading nothing but the loading indicator is rendered.\<close>

lemma Categories_loading: "loading h \<Longrightarrow> Categories h st = Span ''Loading...''"
  by (simp add: Categories_def)

text \<open>The "no records" indicator is what a finished, error-free load without data renders.\<close>

lemma Categories_no_data:
  "\<not> loading h \<Longrightarrow> error h = None \<Longrightarrow> errorAdding h = None \<Longrightarrow> errorDeleting h = None \<Longrightarrow>
   errorUpdating h = None \<Longrightarrow> data h = None \<Longrightarrow> Categories h st = Span ''No records found.''"
  by (simp add: Categories_def js_defs)

text \<open>
  C2. A load that completed without error and returned the empty list of records:
  the component renders the page with its table and an empty body, not the
  "No records found." indicator, which it keeps for a load without data.
\<close>

theorem empty_list_renders_empty_table:
  "Categories (loaded []) initial = Page None [setEntity None, setDisplayModal True] []
   \<and> Categories (loaded []) initial \<noteq> Span ''No records found.''"
  by (simp add: Categories_def js_defs sample_defs renderData_def)

text \<open>
  C3 (amended). Whenever Load is not pending and at least one of Load, Create, Delete,
  Update has produced an error, the view is a single error line and there is no table.
  When the message of the first failed operation in the order Load, Create, Delete, Update
  is not empty, it is the message displayed; in particular Load's when all four failed.
\<close>

theorem error_view_priority:
  assumes "\<not> loading h" and "spec_first_error h = Some e"
  shows "\<exists>m. Categories h st = Span (''Error: '' @ m)
           \<and> tbody_of (Categories h st) = None
           \<and> (message e \<noteq> [] \<longrightarrow> m = message e)"
  using assms
  by (auto simp add: Categories_def js_defs spec_first_error_def split: option.splits)

text \<open>All four operations failed, each with a message of its own: Load's is shown.\<close>

theorem error_view_priority_witness:
  "\<not> loading (all_failed ''load failed'' ''create failed'' ''delete failed'' ''update failed'')
   \<and> spec_first_error (all_failed ''load failed'' ''create failed'' ''delete failed'' ''update failed'')
       = Some \<lparr>message = ''load failed''\<rparr>
   \<and> Categories (all_failed ''load failed'' ''create failed'' ''delete failed'' ''update failed'') initial
       = Span ''Error: load failed''"
proof -
  let ?h = "all_failed ''load failed'' ''create failed'' ''delete failed'' ''update failed''"
  have l: "\<not> loading ?h"
    by (simp add: all_failed_def)
  have f: "spec_first_error ?h = Some \<lparr>message = ''load failed''\<rparr>"
    by (simp add: all_failed_def spec_first_error_def)
  from error_view_priority [OF l f, of initial]
  have "Categories ?h initial = Span ''Error: load failed''"
    by auto
  with l f show ?thesis by simp
qed

text \<open>
  The claim as first stated fails twice. With all four operations failed and an empty
  message in Load's error, the first error in the priority order is Load's, but the line
  shows Create's message. With the query loading and Create failed, the view is the
  loading indicator and no error line at all.
\<close>

theorem error_view_priority_counterexample:
  "spec_first_error (all_failed [] ''create failed'' ''delete failed'' ''update failed'')
       = Some \<lparr>message = []\<rparr>
   \<and> Categories (all_failed [] ''create failed'' ''delete failed'' ''update failed'') initial
       = Span ''Error: create failed''
   \<and> Categories (all_failed [] ''create failed'' ''delete failed'' ''update failed'') initial
       \<noteq> Span (''Error: '' @ message \<lparr>message = []\<rparr>)
   \<and> spec_first_error create_failed_while_loading = Some \<lparr>message = ''create failed''\<rparr>
   \<and> Categories create_failed_while_loading initial = Span ''Loading...''
   \<and> Categories create_failed_while_loading initial
       \<noteq> Span (''Error: '' @ message \<lparr>message = ''create failed''\<rparr>)"
  by (simp add: Categories_def js_defs spec_first_error_def sample_defs)



subsection \<open>Saving\<close>

text \<open>
  C4 (amended). For every draft, save() invokes Update, with the draft's recordKey and
  description, if and only if the draft's recordKey is defined and not empty at call time;
  otherwise it invokes Create with the draft's description and no recordKey. It invokes
  exactly one of the two.
\<close>

theorem save_dispatch:
  "mutations (handleSave ent) =
     [if truthy (opt_chain ent nodeId)
      then updateEntity (opt_chain ent nodeId) (opt_chain ent description)
      else addEntity (opt_chain ent description)]"
  by (simp add: handleSave_def mutations_def js_defs split: option.splits)

text \<open>Scenario D of the spec: the record with key k1, its description edited.\<close>

theorem save_dispatch_witness:
  "mutations (handleSave (Some (fruit\<lparr>description := Some ''Fruits''\<rparr>)))
     = [updateEntity (Some ''k1'') (Some ''Fruits'')]"
  using save_dispatch [of "Some (fruit\<lparr>description := Some ''Fruits''\<rparr>)"]
  by (simp add: js_defs fruit_def)

text \<open>
  A draft whose recordKey is defined, and is the empty string: as first stated the claim
  asks for Update, and save() invokes Create.
\<close>

theorem save_dispatch_counterexample:
  "defined (opt_chain (Some keyless_fruit) nodeId)
   \<and> mutations (handleSave (Some keyless_fruit)) = [addEntity (Some ''Fruit'')]"
  by (simp add: handleSave_def mutations_def js_defs keyless_fruit_def)

text \<open>
  C5. While the editor is shown, its save action is enabled if and only if the draft's
  description is a string that is not empty. Enabled, pressing save runs handleSave on the
  draft; with no draft, or a draft whose description is undefined or empty, the action is
  disabled and pressing save invokes nothing.
\<close>

theorem save_gating:
  assumes "modal_of (Categories h st) = Some m"
  shows "(enableSave m \<longleftrightarrow> (\<exists>x s. entity st = Some x \<and> description x = Some s \<and> s \<noteq> []))
       \<and> (enableSave m \<longrightarrow> press_save m = handleSave (entity st))
       \<and> (entity st = None
            \<or> (\<exists>x. entity st = Some x \<and> (description x = None \<or> description x = Some []))
            \<longrightarrow> \<not> enableSave m \<and> press_save m = [])"
  using assms
  by (auto simp add: Categories_def press_save_def js_defs split: option.splits if_splits)

text \<open>
  The editor opened on the record of scenario B: save is enabled and updates the record.
  The editor opened by New, before any key is pressed: save is disabled and does nothing.
\<close>

theorem save_gating_witness:
  "modal_of (Categories (loaded [fruit]) editing_fruit)
     = Some \<lparr>title = ''New Category'', onClose = [setDisplayModal False],
             onSave = handleSave (Some fruit), enableSave = True,
             content = EntityDetails (Some fruit)\<rparr>
   \<and> press_save \<lparr>title = ''New Category'', onClose = [setDisplayModal False],
             onSave = handleSave (Some fruit), enableSave = True,
             content = EntityDetails (Some fruit)\<rparr>
       = [setDisplayModal False, updateEntity (Some ''k1'') (Some ''Fruit'')]
   \<and> modal_of (Categories (loaded [fruit]) \<lparr>displayModal = True, entity = None\<rparr>)
     = Some \<lparr>title = ''New Category'', onClose = [setDisplayModal False],
             onSave = handleSave None, enableSave = False, content = EntityDetails None\<rparr>
   \<and> press_save \<lparr>title = ''New Category'', onClose = [setDisplayModal False],
             onSave = handleSave None, enableSave = False, content = EntityDetails None\<rparr> = []"
proof -
  let ?new = "\<lparr>displayModal = True, entity = None\<rparr>"
  let ?mf = "\<lparr>title = ''New Category'', onClose = [setDisplayModal False],
             onSave = handleSave (Some fruit), enableSave = True,
             content = EntityDetails (Some fruit)\<rparr>"
  let ?mn = "\<lparr>title = ''New Category'', onClose = [setDisplayModal False],
             onSave = handleSave None, enableSave = False, content = EntityDetails None\<rparr>"
  have a: "modal_of (Categories (loaded [fruit]) editing_fruit) = Some ?mf"
    by (simp add: Categories_def js_defs loaded_def editing_fruit_def fruit_def entityName_def)
  have b: "modal_of (Categories (loaded [fruit]) ?new) = Some ?mn"
    by (simp add: Categories_def js_defs loaded_def entityName_def)
  have "enableSave ?mf"
    by simp
  with save_gating [OF a] have "press_save ?mf = handleSave (entity editing_fruit)"
    by blast
  then have c: "press_save ?mf = [setDisplayModal False, updateEntity (Some ''k1'') (Some ''Fruit'')]"
    by (simp add: handleSave_def js_defs editing_fruit_def fruit_def)
  have "entity ?new = None"
    by simp
  with save_gating [OF b] have d: "press_save ?mn = []"
    by blast
  from a b c d show ?thesis
    by blast
qed

text \<open>
  C6. save() sets displayModal to false first and unconditionally, and only then
  dispatches its one write; whatever the hooks report afterwards, the page rendered from
  the resulting state shows no editor.
\<close>

theorem save_closes_editor:
  "(\<exists>ev. handleSave ent = [setDisplayModal False, ev] \<and> is_mutation ev)
   \<and> displayModal (run (handleSave ent) st) = False
   \<and> modal_of (Categories h (run (handleSave ent) st)) = None"
  by (auto simp add: handleSave_def run_def Categories_def js_defs split: option.splits)

text \<open>
  C9. save() is total: with no draft it sets displayModal and invokes Create with an
  undefined description, and for no draft at all does a member access throw.
\<close>

theorem save_without_draft:
  "handleSave None = [setDisplayModal False, addEntity None]
   \<and> throw err \<notin> set (handleSave ent)"
  by (simp add: handleSave_def js_defs split: option.splits)

subsection \<open>Editing and deleting\<close>

text \<open>
  C7. Every change of the description input replaces the draft by a record whose
  description is the new value of the input and whose id and nodeId are those of the
  draft; the rest of the state stays as it is.
\<close>

theorem keystroke_replaces_description:
  "onChange (EntityDetails ent) v =
     [setEntity (Some \<lparr>nodeId = opt_chain ent nodeId, id' = opt_chain ent id',
                       description = Some v\<rparr>)]
   \<and> run (onChange (EntityDetails (entity st)) v) st =
     st\<lparr>entity := Some \<lparr>nodeId = opt_chain (entity st) nodeId,
                          id' = opt_chain (entity st) id', description = Some v\<rparr>\<rparr>"
  by (simp add: EntityDetails_def spread_description_def run_def js_defs split: option.splits)

text \<open>
  C8. The Delete button of the row of each loaded record invokes Delete with the nodeId
  of that record, and nothing else: displayModal and the draft stay as they are.
\<close>

theorem delete_row:
  assumes "tbody_of (Categories h st) = Some rows" and "i < length rows"
  shows "\<exists>d. data h = Some d
           \<and> length rows = length (nodes (allCategories d))
           \<and> delete_onClick (rows ! i) = [deleteEntity (nodeId (nodes (allCategories d) ! i))]
           \<and> run (delete_onClick (rows ! i)) st = st"
  using assms
  by (auto simp add: Categories_def renderData_def run_def split: if_splits option.splits)

text \<open>Scenario E of the spec: Delete pressed on the row of the record with key k1.\<close>

theorem delete_row_witness:
  "tbody_of (Categories (loaded [fruit]) editing_fruit) = Some (renderData [fruit])
   \<and> (0::nat) < length (renderData [fruit])
   \<and> delete_onClick (renderData [fruit] ! 0) = [deleteEntity (Some ''k1'')]
   \<and> run (delete_onClick (renderData [fruit] ! 0)) editing_fruit = editing_fruit"
proof -
  have a: "tbody_of (Categories (loaded [fruit]) editing_fruit) = Some (renderData [fruit])"
    by (simp add: Categories_def js_defs loaded_def editing_fruit_def)
  have b: "(0::nat) < length (renderData [fruit])"
    by (simp add: renderData_def)
  from delete_row [OF a b]
  have "delete_onClick (renderData [fruit] ! 0) = [deleteEntity (Some ''k1'')]
        \<and> run (delete_onClick (renderData [fruit] ! 0)) editing_fruit = editing_fruit"
    by (auto simp add: loaded_def fruit_def)
  with a b show ?thesis by blast
qed

end
